theory Spec2Isabelle
  imports Complex_Main "HOL-Library.Char_ord" "HOL-Library.List_Lexorder" "HOL-Library.Multiset"
begin

text \<open>
  A model of \<open>dashboard.py\<close>, the script of a clinic's cancellation dashboard: the
  classifier of procedure types, the loader of the two sheets, and the tables that the
  four tabs compute from the loaded records. The calls that only draw (charts, metrics,
  tables, the weekly trend line) are left out; what they are given is part of the model.
  Line numbers refer to \<open>dashboard.py\<close>.
\<close>

section \<open>Strings and the procedure classifier (lines 8-31)\<close>

text \<open>
  Strings are \<^typ>\<open>string\<close>. \<open>str.upper()\<close> and \<open>str.lower()\<close> are modelled on the ASCII
  letters; every other character is left as it is. \<open>keyword in procedure_type\<close> is Python's
  substring test, written as a scan over the start positions of the text.
\<close>

definition upper_char :: "char \<Rightarrow> char" where
  "upper_char c =
     (case map_of (zip ''abcdefghijklmnopqrstuvwxyz'' ''ABCDEFGHIJKLMNOPQRSTUVWXYZ'') c of
        Some u \<Rightarrow> u
      | None \<Rightarrow> c)"

definition upper :: "string \<Rightarrow> string" where
  "upper s = map upper_char s"

definition lower_char :: "char \<Rightarrow> char" where
  "lower_char c =
     (case map_of (zip ''ABCDEFGHIJKLMNOPQRSTUVWXYZ'' ''abcdefghijklmnopqrstuvwxyz'') c of
        Some l \<Rightarrow> l
      | None \<Rightarrow> c)"

definition lower :: "string \<Rightarrow> string" where
  "lower s = map lower_char s"

fun startswith :: "string \<Rightarrow> string \<Rightarrow> bool" where
  "startswith s [] = True"
| "startswith [] (k # ks) = False"
| "startswith (c # cs) (k # ks) = (c = k \<and> startswith cs ks)"

fun str_in :: "string \<Rightarrow> string \<Rightarrow> bool" where
  "str_in k [] = (k = [])"
| "str_in k (c # cs) = (startswith (c # cs) k \<or> str_in k cs)"

text \<open>
  The dictionary literal of lines 12-25. A Python dictionary iterates in insertion order, so
  it is an association list in the order of the source text.
\<close>

definition categories :: "(string \<times> string list) list" where
  "categories =
     [(''OPEN MRI'', [''OPEN MRI'', ''OPEN MAGNETIC'']),
      (''US'', [''US'', ''ULTRA'', ''SONOGRAM'']),
      (''CT'', [''CT'', ''CAT SCAN'', ''COMPUTED TOMOGRAPHY'']),
      (''SLEEP STUDY'', [''SLEEP'']),
      (''MRI'', [''MRI'', ''MAGNETIC'']),
      (''PET/CT'', [''PET/CT'', ''PET CT'']),
      (''XRAY'', [''XRAY'', ''X-RAY'', ''X RAY'', ''RAD'']),
      (''MAMMOGRAM'', [''MAMMO'', ''BREAST'']),
      (''NCS'', [''NCS'', ''NERVE'', ''CONDUCTION'']),
      (''BONE DENSITY'', [''BONE'', ''DEXA'', ''DENSITOMETRY'']),
      (''NUCLEAR MEDICINE'', [''NUC MED'', ''NUCLEAR'', ''THYROID UPTAKE'']),
      (''CARDIAC PET'', [''CARDIAC PET'', ''HEART PET''])]"

text \<open>The loop of lines 27-31: \<open>any(keyword in procedure_type for keyword in keywords)\<close>.\<close>

fun first_match :: "(string \<times> string list) list \<Rightarrow> string \<Rightarrow> string" where
  "first_match [] s = ''OTHER''"
| "first_match ((category, keywords) # rest) s =
     (if list_ex (\<lambda>keyword. str_in keyword s) keywords then category
      else first_match rest s)"

definition categorize_procedure :: "string \<Rightarrow> string" where
  "categorize_procedure procedure_type = first_match categories (upper procedure_type)"


section \<open>Records and the loader (lines 35-80)\<close>

text \<open>
  A time stamp is a number of seconds since the epoch, a calendar date a number of days
  since the epoch. \<open>None\<close> in a date column is pandas' \<open>NaT\<close>. The text columns hold
  strings; a blank cell in a text column is not part of this model.
\<close>

type_synonym timestamp = rat
type_synonym date = int

record appointment =
  Appointment_Date :: "timestamp option"
  Type :: string
  Status :: string
  Created_By :: string
  Created_Date :: "timestamp option"
  Canceled_By :: string
  Canceled_Date :: "timestamp option"
  Procedure_Category :: string

text \<open>
  A cell of a date column as \<open>pd.to_datetime(..., errors='coerce')\<close> sees it: a value it
  converts, or one it cannot convert (a blank cell, text that is no date), which it turns
  into \<open>NaT\<close> instead of raising.
\<close>

datatype date_cell = Stamp timestamp | Unparseable

fun to_datetime :: "date_cell \<Rightarrow> timestamp option" where
  "to_datetime (Stamp t) = Some t"
| "to_datetime Unparseable = None"

text \<open>
  A row of the sheet \<open>Dashboard Cancel No Show\<close> after the column selection of line 47, in
  that order: Appt Date, Type, Status, Created By, Created Date/Time, Canceled By,
  Canceled Date/Time. Line 48 renames the columns by position.
\<close>

type_synonym raw_row =
  "date_cell \<times> string \<times> string \<times> string \<times> date_cell \<times> string \<times> date_cell"

definition process_row :: "raw_row \<Rightarrow> appointment" where
  "process_row = (\<lambda>(appt, ty, st, cby, cdt, xby, xdt).
     \<lparr>Appointment_Date = to_datetime appt, Type = ty, Status = st, Created_By = cby,
      Created_Date = to_datetime cdt, Canceled_By = xby, Canceled_Date = to_datetime xdt,
      Procedure_Category = categorize_procedure ty\<rparr>)"

text \<open>
  The sheet \<open>Patients Seen Report\<close>, as a list of rows of cells. \<open>pd.to_numeric(...,
  errors='coerce').fillna(0)\<close> turns every cell that is no number into 0.
\<close>

datatype grid_cell = Blank | Numeric rat | NonNumeric string

fun to_numeric_fillna :: "grid_cell \<Rightarrow> rat" where
  "to_numeric_fillna (Numeric n) = n"
| "to_numeric_fillna Blank = 0"
| "to_numeric_fillna (NonNumeric s) = 0"

definition dropna_all :: "grid_cell list list \<Rightarrow> grid_cell list list" where
  "dropna_all lines = filter (\<lambda>line. \<not> list_all (\<lambda>c. c = Blank) line) lines"

definition patients_seen_total :: "grid_cell list list \<Rightarrow> rat" where
  "patients_seen_total rows =
     (let columns = dropna_all (transpose (dropna_all rows));
          numeric_cols = tl columns
      in sum_list (map (\<lambda>col. sum_list (map to_numeric_fillna col)) numeric_cols))"

text \<open>
  What the loader reads: whether the file exists, and for each sheet either the rows or
  the text of the exception raised while reading or processing it. Messages shown with
  \<open>st.error\<close> and \<open>st.warning\<close> are returned with the result.
\<close>

record workbook =
  file_path :: string
  path_exists :: bool
  cancel_no_show :: "string + raw_row list"
  patients_seen :: "string + grid_cell list list"

datatype message = Error string | Warning string

definition load_data :: "workbook \<Rightarrow> appointment list \<times> rat \<times> message list" where
  "load_data wb =
     (if \<not> path_exists wb then
        ([], 0, [Error (''Data file not found at '' @ file_path wb
                         @ ''. Please ensure the data file exists.'')])
      else
        (case cancel_no_show wb of
           Inl e \<Rightarrow> ([], 0, [Error (''Error loading data: '' @ e)])
         | Inr raw \<Rightarrow>
             (let df = map process_row raw in
              (case patients_seen wb of
                 Inl e \<Rightarrow> (df, 0, [Warning (''Could not process Patients Seen Report: '' @ e)])
               | Inr grid \<Rightarrow> (df, patients_seen_total grid, [])))))"


section \<open>Data frame operations\<close>

text \<open>
  Boolean-mask indexing \<open>df[mask]\<close>, the element-wise \<open>&\<close> of two masks, and
  \<open>groupby\<close>, which yields the groups in the order of their sorted keys.
  \<open>sort_values\<close> is modelled by a stable sort; pandas does not fix the order of rows
  with equal keys.
\<close>

definition boolean_index :: "'a list \<Rightarrow> bool list \<Rightarrow> 'a list" where
  "boolean_index df m = map fst (filter snd (zip df m))"

definition mask_and :: "bool list \<Rightarrow> bool list \<Rightarrow> bool list" where
  "mask_and m1 m2 = map2 (\<and>) m1 m2"

definition groupby :: "('a \<Rightarrow> 'k::linorder) \<Rightarrow> 'a list \<Rightarrow> ('k \<times> 'a list) list" where
  "groupby key df =
     map (\<lambda>k. (k, filter (\<lambda>r. key r = k) df)) (sort (remdups (map key df)))"

definition sort_values :: "('a \<Rightarrow> 'k::linorder) \<Rightarrow> 'a list \<Rightarrow> 'a list" where
  "sort_values key df = sort_key key df"

definition sort_values_desc :: "('a \<Rightarrow> 'k::linorder) \<Rightarrow> 'a list \<Rightarrow> 'a list" where
  "sort_values_desc key df = rev (sort_key key df)"

text \<open>
  \<open>.round(1)\<close> on a series rounds to one decimal, halves to the even neighbour. Rates are
  exact rationals here, where the source computes with binary floating point.
\<close>

definition rint :: "rat \<Rightarrow> int" where
  "rint x =
     (let f = \<lfloor>x\<rfloor>; d = x - of_int f
      in if d < 1/2 then f else if 1/2 < d then f + 1 else if even f then f else f + 1)"

definition round1 :: "rat \<Rightarrow> rat" where
  "round1 x = of_int (rint (x * 10)) / 10"

text \<open>\<open>Series.median()\<close>: \<open>None\<close> is the \<open>NaN\<close> of an empty series.\<close>

definition median :: "rat list \<Rightarrow> rat option" where
  "median xs =
     (let s = sort xs; n = length s
      in if n = 0 then None
         else if odd n then Some (s ! (n div 2))
         else Some ((s ! (n div 2 - 1) + s ! (n div 2)) / 2))"

text \<open>\<open>series > m\<close>: a comparison with \<open>NaN\<close> is false.\<close>

definition series_gt :: "rat list \<Rightarrow> rat option \<Rightarrow> bool list" where
  "series_gt xs m = map (\<lambda>x. case m of None \<Rightarrow> False | Some v \<Rightarrow> v < x) xs"


section \<open>The date filter (lines 114-115, 293-294, 464-465)\<close>

text \<open>
  \<open>.dt.date\<close> yields the calendar day of a time stamp and keeps \<open>NaT\<close>. The column of
  days is compared with the chosen date element by element; a missing value compares
  false under \<open>>=\<close> and under \<open><=\<close>.
\<close>

definition dt_date :: "timestamp option \<Rightarrow> date option" where
  "dt_date t = map_option (\<lambda>s. \<lfloor>s / 86400\<rfloor>) t"

definition date_ge :: "date option \<Rightarrow> date \<Rightarrow> bool" where
  "date_ge d bound = (case d of None \<Rightarrow> False | Some x \<Rightarrow> bound \<le> x)"

definition date_le :: "date option \<Rightarrow> date \<Rightarrow> bool" where
  "date_le d bound = (case d of None \<Rightarrow> False | Some x \<Rightarrow> x \<le> bound)"

definition date_mask :: "appointment list \<Rightarrow> date \<Rightarrow> date \<Rightarrow> bool list" where
  "date_mask data start_date end_date =
     mask_and (map (\<lambda>r. date_ge (dt_date (Appointment_Date r)) start_date) data)
              (map (\<lambda>r. date_le (dt_date (Appointment_Date r)) end_date) data)"

definition filtered_data :: "appointment list \<Rightarrow> date \<Rightarrow> date \<Rightarrow> appointment list" where
  "filtered_data data start_date end_date = boolean_index data (date_mask data start_date end_date)"


section \<open>Tab 1: cancellations by procedure category (lines 103-279)\<close>

definition is_cancelled :: "appointment \<Rightarrow> bool" where
  "is_cancelled r = (Status r = ''Cancelled'')"

text \<open>
  Lines 118-122: one row per procedure category, with the number of its rows whose status
  is \<open>Cancelled\<close>.
\<close>

definition proc_metrics_grouped :: "appointment list \<Rightarrow> (string \<times> nat) list" where
  "proc_metrics_grouped filtered =
     map (\<lambda>(category, grp). (category, length (filter is_cancelled grp)))
         (groupby Procedure_Category filtered)"

text \<open>
  Lines 125-128. The conditional expression yields a series when the total is positive and
  the Python integer \<open>0\<close> otherwise; \<open>.round(1)\<close> is then looked up on that value. A series
  has the method, an \<open>int\<close> has not: the lookup raises \<open>AttributeError\<close>.
\<close>

datatype exn = AttributeError

datatype pyval = Series "rat list" | PyInt int

definition cancellation_rate_expr :: "nat list \<Rightarrow> rat \<Rightarrow> pyval" where
  "cancellation_rate_expr cancelled total_procedures =
     (if 0 < total_procedures
      then Series (map (\<lambda>c. of_nat c / total_procedures * 100) cancelled)
      else PyInt 0)"

fun py_round1 :: "pyval \<Rightarrow> exn + rat list" where
  "py_round1 (Series xs) = Inr (map round1 xs)"
| "py_round1 (PyInt n) = Inl AttributeError"

record proc_metric =
  Category :: string
  Cancelled :: nat
  Cancellation_Rate :: rat

definition proc_metrics :: "appointment list \<Rightarrow> rat \<Rightarrow> exn + proc_metric list" where
  "proc_metrics filtered total_procedures =
     (let grouped = proc_metrics_grouped filtered in
      case py_round1 (cancellation_rate_expr (map snd grouped) total_procedures) of
        Inl e \<Rightarrow> Inl e
      | Inr rates \<Rightarrow>
          Inr (sort_values_desc Cancellation_Rate
                 (map2 (\<lambda>(category, c) rate.
                          \<lparr>Category = category, Cancelled = c, Cancellation_Rate = rate\<rparr>)
                       grouped rates)))"

text \<open>
  Lines 203-213: the rows of category \<open>OTHER\<close>, grouped by their raw type, with the local
  cancellation rate of each type. Lines 261-264: the types with at least five appointments
  and a rate above the median rate of all the types.
\<close>

record other_type =
  Procedure_Type :: string
  Total :: nat
  Cancelled_Count :: nat
  Rate :: rat

definition other_types :: "appointment list \<Rightarrow> other_type list" where
  "other_types other_procedures =
     sort_values_desc Total
       (map (\<lambda>(ty, grp).
               (let total = length grp; cancelled = length (filter is_cancelled grp)
                in \<lparr>Procedure_Type = ty, Total = total, Cancelled_Count = cancelled,
                    Rate = round1 (of_nat cancelled / of_nat total * 100)\<rparr>))
            (groupby Type other_procedures))"

definition high_cancel :: "other_type list \<Rightarrow> other_type list" where
  "high_cancel ots =
     sort_values_desc Rate
       (boolean_index ots
          (mask_and (map (\<lambda>r. 5 \<le> Total r) ots)
                    (series_gt (map Rate ots) (median (map Rate ots)))))"

text \<open>
  The two names bound at line 85 and read by the tabs. Every other name a tab reads is
  assigned in that tab first, so it is local to the tab here.
\<close>

record globals =
  data :: "appointment list"
  total_procedures :: rat

record tab1_view =
  shown_proc_metrics :: "proc_metric list"
  total_cancellations :: nat
  other_analysis :: "(other_type list \<times> other_type list) option"

definition tab1 :: "date \<Rightarrow> date \<Rightarrow> globals \<Rightarrow> exn + tab1_view" where
  "tab1 start_date end_date g =
     (let filtered = filtered_data (data g) start_date end_date in
      case proc_metrics filtered (total_procedures g) of
        Inl e \<Rightarrow> Inl e
      | Inr pm \<Rightarrow>
          (let other_procedures = filter (\<lambda>r. Procedure_Category r = ''OTHER'') filtered
           in Inr \<lparr>shown_proc_metrics = pm,
                   total_cancellations = sum_list (map Cancelled pm),
                   other_analysis =
                     (if other_procedures = [] then None
                      else Some (other_types other_procedures,
                                 high_cancel (other_types other_procedures)))\<rparr>))"


section \<open>Tab 2: procedures created by employee (lines 282-403)\<close>

text \<open>
  Line 359 assigns the number of the selected employee's rows to the name
  \<open>total_procedures\<close>, the name line 85 bound to the loader's total.
\<close>

record tab2_view =
  employee_total :: "(string \<times> nat) list"
  employees :: "string list"
  employee_data :: "appointment list"
  cancelled_procedures :: nat
  cancellation_rate :: rat
  cancel_by_type :: "(string \<times> nat \<times> nat \<times> rat) list"

definition tab2 :: "date \<Rightarrow> date \<Rightarrow> string \<Rightarrow> globals \<Rightarrow> tab2_view \<times> globals" where
  "tab2 start_date end_date selected_employee g =
     (let filtered = filtered_data (data g) start_date end_date;
          emp_data = filter (\<lambda>r. Created_By r = selected_employee) filtered;
          g' = g\<lparr>total_procedures := of_nat (length emp_data)\<rparr>;
          cancelled = length (filter is_cancelled emp_data);
          rate = (if 0 < total_procedures g'
                  then of_nat cancelled / total_procedures g' * 100 else 0)
      in (\<lparr>employee_total = map (\<lambda>(emp, grp). (emp, length grp)) (groupby Created_By filtered),
           employees = sort (remdups (map Created_By filtered)),
           employee_data = emp_data,
           cancelled_procedures = cancelled,
           cancellation_rate = rate,
           cancel_by_type =
             map (\<lambda>(category, grp).
                    (let total = length grp; c = length (filter is_cancelled grp)
                     in (category, total, c, round1 (of_nat c / of_nat total * 100))))
                 (groupby Procedure_Category emp_data)\<rparr>,
          g'))"


section \<open>Tab 3: time between scheduling and cancellation (lines 406-450)\<close>

text \<open>
  The difference of two time stamps in hours, an exact rational where the source has a
  float; it is \<open>NaN\<close> (\<open>None\<close>) when either stamp is \<open>NaT\<close>.
  \<open>pd.cut\<close> with its defaults reads the edges as intervals open on the left and closed on
  the right, and gives no category to a value in none of them.
\<close>

definition time_to_cancellation :: "appointment \<Rightarrow> rat option" where
  "time_to_cancellation r =
     (case (Canceled_Date r, Created_Date r) of
        (Some c, Some t) \<Rightarrow> Some ((c - t) / 3600)
      | _ \<Rightarrow> None)"

datatype edge = Edge rat | PosInf

definition bins :: "edge list" where
  "bins = [Edge 0, Edge (1667 / 10000), Edge 1, Edge 5, Edge 24, PosInf]"

definition labels :: "string list" where
  "labels = [''<10 mins'', ''10m-1h'', ''1-5h'', ''5-24h'', ''>24h'']"

fun above :: "edge \<Rightarrow> rat \<Rightarrow> bool" where
  "above (Edge b) x = (b < x)"
| "above PosInf x = False"

fun up_to :: "edge \<Rightarrow> rat \<Rightarrow> bool" where
  "up_to (Edge b) x = (x \<le> b)"
| "up_to PosInf x = True"

fun cut :: "rat \<Rightarrow> edge list \<Rightarrow> string list \<Rightarrow> string option" where
  "cut x (lo # hi # es) (l # ls) =
     (if above lo x \<and> up_to hi x then Some l else cut x (hi # es) ls)"
| "cut x es ls = None"

record timed_row =
  appt :: appointment
  Time_to_Cancellation :: rat
  Time_Category :: "string option"

record tab3_view =
  cancelled_data :: "timed_row list"
  average_hours :: rat
  median_hours :: "rat option"
  max_hours :: rat

fun dropna_time :: "(appointment \<times> rat option) list \<Rightarrow> (appointment \<times> rat) list" where
  "dropna_time [] = []"
| "dropna_time ((r, None) # rest) = dropna_time rest"
| "dropna_time ((r, Some h) # rest) = (r, h) # dropna_time rest"

definition tab3 :: "globals \<Rightarrow> message + tab3_view" where
  "tab3 g =
     (let cancelled = filter is_cancelled (data g) in
      if cancelled = [] then Inl (Warning ''No cancelled appointments found.'')
      else
        (let timed = dropna_time (map (\<lambda>r. (r, time_to_cancellation r)) cancelled) in
         if timed = [] then Inl (Warning ''No valid time differences found in cancellations.'')
         else
           (let hours = map snd timed in
            Inr \<lparr>cancelled_data =
                   map (\<lambda>(r, h). \<lparr>appt = r, Time_to_Cancellation = h,
                                   Time_Category = cut h bins labels\<rparr>) timed,
                 average_hours = sum_list hours / of_nat (length hours),
                 median_hours = median hours,
                 max_hours = fold max hours (hd hours)\<rparr>)))"


section \<open>Tab 4: cancellations by employee (lines 453-551)\<close>

record tab4_view =
  cancel_metrics :: "(string \<times> nat \<times> nat) list"
  employee_cancellations :: "appointment list"

definition tab4 :: "date \<Rightarrow> date \<Rightarrow> string \<Rightarrow> globals \<Rightarrow> tab4_view" where
  "tab4 start_date end_date selected_employee g =
     (let filtered = filtered_data (data g) start_date end_date
      in \<lparr>cancel_metrics =
             sort_values (\<lambda>(emp, n, u). n)
               (map (\<lambda>(emp, grp).
                       (emp, length grp, length (remdups (map Procedure_Category grp))))
                    (groupby Canceled_By (filter is_cancelled filtered))),
           employee_cancellations =
             boolean_index filtered
               (mask_and (map is_cancelled filtered)
                         (map (\<lambda>r. Canceled_By r = selected_employee) filtered))\<rparr>)"


section \<open>The script (lines 83-100 and the four tabs in order)\<close>

text \<open>
  The widgets' values are the inputs of a run. An exception that no handler catches ends
  the run; \<open>st.stop()\<close> at line 89 ends it when the loader returned no rows.
\<close>

record inputs =
  tab1_dates :: "date \<times> date"
  tab2_dates :: "date \<times> date"
  tab2_employee :: string
  tab4_dates :: "date \<times> date"
  tab4_employee :: string

record views =
  view1 :: tab1_view
  view2 :: tab2_view
  view3 :: "message + tab3_view"
  view4 :: tab4_view

definition run_tabs :: "inputs \<Rightarrow> globals \<Rightarrow> exn + views" where
  "run_tabs inp g =
     (case tab1 (fst (tab1_dates inp)) (snd (tab1_dates inp)) g of
        Inl e \<Rightarrow> Inl e
      | Inr v1 \<Rightarrow>
          (let (v2, g2) = tab2 (fst (tab2_dates inp)) (snd (tab2_dates inp)) (tab2_employee inp) g
           in Inr \<lparr>view1 = v1, view2 = v2, view3 = tab3 g2,
                   view4 = tab4 (fst (tab4_dates inp)) (snd (tab4_dates inp))
                                (tab4_employee inp) g2\<rparr>))"

datatype outcome =
  Stopped "message list"
| Raised "message list" exn
| Rendered "message list" views

definition dashboard :: "workbook \<Rightarrow> inputs \<Rightarrow> outcome" where
  "dashboard wb inp =
     (case load_data wb of
        (df, total_procs, msgs) \<Rightarrow>
          if df = [] then
            Stopped (msgs @ [Warning
              ''No data available. Please check if the data file exists and is accessible.''])
          else
            (case run_tabs inp \<lparr>data = df, total_procedures = total_procs\<rparr> of
               Inl e \<Rightarrow> Raised msgs e
             | Inr v \<Rightarrow> Rendered msgs v))"


section \<open>Example inputs\<close>

text \<open>
  A small workbook used to evaluate the definitions: five appointments, the last with an
  appointment date that does not parse, and no readable \<open>Patients Seen Report\<close>.
\<close>

definition example_rows :: "raw_row list" where
  "example_rows =
     [(Stamp 0, ''MRI brain'', ''Cancelled'', ''A'', Stamp 0, ''Z'', Stamp 300),
      (Stamp 3600, ''MRI brain'', ''Cancelled'', ''A'', Stamp 0, ''Z'', Stamp 7200),
      (Stamp 0, ''ct head'', ''No Show'', ''A'', Stamp 0, ''-'', Unparseable),
      (Stamp 86400, ''biopsy'', ''Cancelled'', ''B'', Stamp 50, ''Y'', Stamp 50),
      (Unparseable, ''ct head'', ''Cancelled'', ''B'', Unparseable, ''Z'', Stamp 10)]"

definition example_workbook :: workbook where
  "example_workbook =
     \<lparr>file_path = ''dashboard_data.xlsx'', path_exists = True,
      cancel_no_show = Inr example_rows,
      patients_seen = Inl ''Worksheet named Patients Seen Report not found''\<rparr>"

definition example_data :: "appointment list" where
  "example_data = map process_row example_rows"

definition example_globals :: globals where
  "example_globals = \<lparr>data = example_data, total_procedures = 100\<rparr>"

definition example_inputs :: inputs where
  "example_inputs =
     \<lparr>tab1_dates = (0, 1), tab2_dates = (0, 1), tab2_employee = ''A'',
      tab4_dates = (0, 1), tab4_employee = ''Z''\<rparr>"

text \<open>The appointment of the example whose creation and cancellation stamps coincide.\<close>

definition same_instant :: appointment where
  "same_instant =
     \<lparr>Appointment_Date = Some 86400, Type = ''biopsy'', Status = ''Cancelled'',
      Created_By = ''B'', Created_Date = Some 50, Canceled_By = ''Y'',
      Canceled_Date = Some 50, Procedure_Category = ''OTHER''\<rparr>"

text \<open>A breakdown of the category \<open>OTHER\<close> with five procedure types.\<close>

definition example_other_types :: "other_type list" where
  "example_other_types =
     [\<lparr>Procedure_Type = ''biopsy'', Total = 10, Cancelled_Count = 5, Rate = 50\<rparr>,
      \<lparr>Procedure_Type = ''consult'', Total = 10, Cancelled_Count = 3, Rate = 30\<rparr>,
      \<lparr>Procedure_Type = ''fitting'', Total = 10, Cancelled_Count = 1, Rate = 10\<rparr>,
      \<lparr>Procedure_Type = ''injection'', Total = 2, Cancelled_Count = 0, Rate = 0\<rparr>,
      \<lparr>Procedure_Type = ''aspiration'', Total = 1, Cancelled_Count = 0, Rate = 0\<rparr>]"


section \<open>The classifier\<close>

lemma startswith_iff: "startswith s k \<longleftrightarrow> (\<exists>ss. s = k @ ss)"
  by (induction s k rule: startswith.induct) auto

text \<open>\<open>str_in k s\<close> holds exactly when \<open>k\<close> occurs in \<open>s\<close> as a contiguous substring.\<close>

lemma str_in_iff: "str_in k s \<longleftrightarrow> (\<exists>ps ss. s = ps @ k @ ss)"
proof (induction s)
  case Nil
  then show ?case by auto
next
  case (Cons c cs)
  have "(\<exists>ps ss. c # cs = ps @ k @ ss) \<longleftrightarrow>
        (\<exists>ss. c # cs = k @ ss) \<or> (\<exists>ps ss. cs = ps @ k @ ss)"
  proof
    assume "\<exists>ps ss. c # cs = ps @ k @ ss"
    then obtain ps ss where eq: "c # cs = ps @ k @ ss" by blast
    show "(\<exists>ss. c # cs = k @ ss) \<or> (\<exists>ps ss. cs = ps @ k @ ss)"
    proof (cases ps)
      case Nil
      with eq show ?thesis by auto
    next
      case (Cons p ps')
      with eq have "cs = ps' @ k @ ss" by simp
      then show ?thesis by blast
    qed
  next
    assume "(\<exists>ss. c # cs = k @ ss) \<or> (\<exists>ps ss. cs = ps @ k @ ss)"
    then show "\<exists>ps ss. c # cs = ps @ k @ ss"
    proof
      assume "\<exists>ss. c # cs = k @ ss"
      then obtain ss where "c # cs = [] @ k @ ss" by auto
      then show ?thesis by blast
    next
      assume "\<exists>ps ss. cs = ps @ k @ ss"
      then obtain ps ss where "c # cs = (c # ps) @ k @ ss" by auto
      then show ?thesis by blast
    qed
  qed
  with Cons show ?case by (simp add: startswith_iff)
qed

lemma list_ex_str_in:
  "list_ex (\<lambda>keyword. str_in keyword s) ks \<longleftrightarrow> (\<exists>k\<in>set ks. \<exists>ps ss. s = ps @ k @ ss)"
  by (simp add: list_ex_iff str_in_iff)

lemma str_in_trans: "str_in a b \<Longrightarrow> str_in b s \<Longrightarrow> str_in a s"
  unfolding str_in_iff by (metis append.assoc)

lemma first_match_split:
  "\<forall>ck\<in>set earlier. \<not> list_ex (\<lambda>k. str_in k s) (snd ck) \<Longrightarrow>
   list_ex (\<lambda>k. str_in k s) ks \<Longrightarrow>
   first_match (earlier @ (c, ks) # later) s = c"
proof (induction earlier)
  case Nil
  then show ?case by simp
next
  case (Cons a earlier)
  obtain c' ks' where a: "a = (c', ks')" by (cases a)
  from Cons.prems(1) a have "\<not> list_ex (\<lambda>k. str_in k s) ks'" by simp
  moreover have "first_match (earlier @ (c, ks) # later) s = c"
    using Cons by simp
  ultimately show ?case using a by simp
qed

lemma first_match_none:
  "\<forall>ck\<in>set cs. \<not> list_ex (\<lambda>k. str_in k s) (snd ck) \<Longrightarrow> first_match cs s = ''OTHER''"
proof (induction cs)
  case Nil
  then show ?case by simp
next
  case (Cons a cs)
  obtain c ks where a: "a = (c, ks)" by (cases a)
  with Cons show ?case by simp
qed

lemmas classifier_eval =
  categorize_procedure_def categories_def upper_def upper_char_def lower_def lower_char_def

text \<open>
  Claim C1: every keyword of the table, in upper or in lower case, is classified into the
  category that lists it. The code does not do this for three keywords. \<open>PET/CT\<close> and
  \<open>PET CT\<close> contain \<open>CT\<close>, a keyword of the category \<open>CT\<close>, which the table lists before
  \<open>PET/CT\<close>; \<open>CONDUCTION\<close> contains \<open>CT\<close> too. All three are classified as \<open>CT\<close>.
\<close>

theorem keyword_misclassified:
  "categorize_procedure ''PET/CT'' = ''CT''
   \<and> categorize_procedure ''PET CT'' = ''CT''
   \<and> categorize_procedure ''CONDUCTION'' = ''CT''
   \<and> categorize_procedure (lower ''PET/CT'') = ''CT''
   \<and> categorize_procedure (lower ''PET CT'') = ''CT''
   \<and> categorize_procedure (lower ''CONDUCTION'') = ''CT''"
  by (simp add: classifier_eval)

text \<open>No input at all is classified as \<open>PET/CT\<close>: the category cannot be reached.\<close>

lemma pet_ct_unreachable: "categorize_procedure s \<noteq> ''PET/CT''"
proof -
  have ct: "str_in ''CT'' ''PET/CT''" "str_in ''CT'' ''PET CT''" by simp_all
  show ?thesis
  proof (cases "str_in ''CT'' (upper s)")
    case True
    then show ?thesis by (simp add: categorize_procedure_def categories_def)
  next
    case False
    then have "\<not> str_in ''PET/CT'' (upper s)" "\<not> str_in ''PET CT'' (upper s)"
      using ct str_in_trans by blast+
    then show ?thesis by (simp add: categorize_procedure_def categories_def)
  qed
qed

text \<open>Each of the other 27 keywords is classified into its own category, in either case.\<close>

lemma other_keywords_classified:
  "list_all (\<lambda>(c, ks). list_all (\<lambda>k.
      List.member [''PET/CT'', ''PET CT'', ''CONDUCTION''] k \<or>
      (categorize_procedure k = c \<and> categorize_procedure (lower k) = c)) ks) categories"
  by code_simp

text \<open>
  Claim C6: the classifier is first-match-wins over the categories in the order OPEN MRI,
  US, CT, SLEEP STUDY, MRI, PET/CT, XRAY, MAMMOGRAM, NCS, BONE DENSITY, NUCLEAR MEDICINE,
  CARDIAC PET. The result is the first category of the table with a keyword that occurs in
  the upper-cased input, whatever the later categories hold, and \<open>OTHER\<close> when no category
  has one. \<open>OPEN MRI SCAN\<close> is classified as \<open>OPEN MRI\<close>.
\<close>

theorem categorize_procedure_first_match:
  "map fst categories =
     [''OPEN MRI'', ''US'', ''CT'', ''SLEEP STUDY'', ''MRI'', ''PET/CT'', ''XRAY'',
      ''MAMMOGRAM'', ''NCS'', ''BONE DENSITY'', ''NUCLEAR MEDICINE'', ''CARDIAC PET'']
   \<and> categorize_procedure ''OPEN MRI SCAN'' = ''OPEN MRI''
   \<and> (\<forall>earlier c ks later.
         categories = earlier @ (c, ks) # later
         \<and> (\<exists>k\<in>set ks. \<exists>ps ss. upper s = ps @ k @ ss)
         \<and> (\<forall>ck\<in>set earlier. \<forall>k\<in>set (snd ck). \<nexists>ps ss. upper s = ps @ k @ ss)
         \<longrightarrow> categorize_procedure s = c)
   \<and> ((\<forall>ck\<in>set categories. \<forall>k\<in>set (snd ck). \<nexists>ps ss. upper s = ps @ k @ ss)
         \<longrightarrow> categorize_procedure s = ''OTHER'')"
proof (intro conjI allI impI)
  show "map fst categories =
     [''OPEN MRI'', ''US'', ''CT'', ''SLEEP STUDY'', ''MRI'', ''PET/CT'', ''XRAY'',
      ''MAMMOGRAM'', ''NCS'', ''BONE DENSITY'', ''NUCLEAR MEDICINE'', ''CARDIAC PET'']"
    by (simp add: categories_def)
next
  show "categorize_procedure ''OPEN MRI SCAN'' = ''OPEN MRI''"
    by (simp add: classifier_eval)
next
  fix earlier c ks later
  assume h: "categories = earlier @ (c, ks) # later
         \<and> (\<exists>k\<in>set ks. \<exists>ps ss. upper s = ps @ k @ ss)
         \<and> (\<forall>ck\<in>set earlier. \<forall>k\<in>set (snd ck). \<nexists>ps ss. upper s = ps @ k @ ss)"
  then have "list_ex (\<lambda>k. str_in k (upper s)) ks"
    and "\<forall>ck\<in>set earlier. \<not> list_ex (\<lambda>k. str_in k (upper s)) (snd ck)"
    by (simp_all add: list_ex_str_in)
  then have "first_match (earlier @ (c, ks) # later) (upper s) = c"
    by (rule first_match_split[rotated])
  with h show "categorize_procedure s = c"
    by (simp add: categorize_procedure_def)
next
  assume "\<forall>ck\<in>set categories. \<forall>k\<in>set (snd ck). \<nexists>ps ss. upper s = ps @ k @ ss"
  then have "\<forall>ck\<in>set categories. \<not> list_ex (\<lambda>k. str_in k (upper s)) (snd ck)"
    by (simp add: list_ex_str_in)
  then show "categorize_procedure s = ''OTHER''"
    unfolding categorize_procedure_def by (rule first_match_none)
qed

text \<open>
  At the input \<open>mri of the brain\<close>: the fifth category, \<open>MRI\<close>, has a keyword in the
  upper-cased input and none of the four categories before it has one.
\<close>

theorem categorize_procedure_first_match_witness:
  "categories = take 4 categories @ (''MRI'', [''MRI'', ''MAGNETIC'']) # drop 5 categories
   \<and> str_in ''MRI'' (upper ''mri of the brain'')
   \<and> list_all (\<lambda>ck. list_all (\<lambda>k. \<not> str_in k (upper ''mri of the brain'')) (snd ck))
               (take 4 categories)
   \<and> categorize_procedure ''mri of the brain'' = ''MRI''"
proof -
  have split: "categories = take 4 categories @ (''MRI'', [''MRI'', ''MAGNETIC'']) # drop 5 categories"
    by (simp add: categories_def)
  have hit: "str_in ''MRI'' (upper ''mri of the brain'')"
    by (simp add: upper_def upper_char_def)
  have miss: "list_all (\<lambda>ck. list_all (\<lambda>k. \<not> str_in k (upper ''mri of the brain'')) (snd ck))
               (take 4 categories)"
    by (simp add: categories_def upper_def upper_char_def)
  have "\<exists>k\<in>set [''MRI'', ''MAGNETIC'']. \<exists>ps ss. upper ''mri of the brain'' = ps @ k @ ss"
    using hit by (auto simp: str_in_iff)
  moreover have "\<forall>ck\<in>set (take 4 categories). \<forall>k\<in>set (snd ck).
                   \<nexists>ps ss. upper ''mri of the brain'' = ps @ k @ ss"
    using miss unfolding list_all_iff str_in_iff by blast
  ultimately have "categorize_procedure ''mri of the brain'' = ''MRI''"
    using categorize_procedure_first_match[of "''mri of the brain''"] split by blast
  with split hit miss show ?thesis by blast
qed


section \<open>Data frame operations: basic facts\<close>

lemma boolean_index_map: "boolean_index df (map P df) = filter P df"
  unfolding boolean_index_def by (induction df) auto

lemma mask_and_map: "mask_and (map P df) (map Q df) = map (\<lambda>r. P r \<and> Q r) df"
  unfolding mask_and_def by (induction df) auto

lemma mset_sort_values_desc: "mset (sort_values_desc key df) = mset df"
  by (simp add: sort_values_desc_def)

lemma set_sort_values_desc: "set (sort_values_desc key df) = set df"
  by (simp add: sort_values_desc_def)

lemma sum_list_sort_values_desc:
  fixes f :: "'a \<Rightarrow> nat"
  shows "sum_list (map f (sort_values_desc key df)) = sum_list (map f df)"
proof -
  have "sum_list (map f (sort_values_desc key df))
        = sum_mset (image_mset f (mset (sort_values_desc key df)))"
    by (metis mset_map sum_mset_sum_list)
  also have "\<dots> = sum_mset (image_mset f (mset df))"
    by (simp add: mset_sort_values_desc)
  also have "\<dots> = sum_list (map f df)"
    by (metis mset_map sum_mset_sum_list)
  finally show ?thesis .
qed

text \<open>The date filter keeps the rows whose day is known and lies within the two bounds.\<close>

lemma filtered_data_filter:
  "filtered_data df s e =
     filter (\<lambda>r. date_ge (dt_date (Appointment_Date r)) s
                \<and> date_le (dt_date (Appointment_Date r)) e) df"
  by (simp add: filtered_data_def date_mask_def mask_and_map boolean_index_map)

text \<open>
  Counting the rows with a property group by group: every row lies in the group of its
  key and in no other group.
\<close>

lemma count_by_key:
  fixes key :: "'a \<Rightarrow> 'k"
  assumes "finite K" and "key ` set df \<subseteq> K"
  shows "(\<Sum>k\<in>K. length (filter P (filter (\<lambda>r. key r = k) df))) = length (filter P df)"
  using assms(2)
proof (induction df)
  case Nil
  then show ?case by simp
next
  case (Cons r df)
  have in_K: "key r \<in> K" using Cons.prems by simp
  have "(\<Sum>k\<in>K. length (filter P (filter (\<lambda>x. key x = k) (r # df))))
        = (\<Sum>k\<in>K. (if key r = k \<and> P r then 1 else 0)
                   + length (filter P (filter (\<lambda>x. key x = k) df)))"
    by (rule sum.cong) auto
  also have "\<dots> = (\<Sum>k\<in>K. if key r = k \<and> P r then 1 else 0)
                   + (\<Sum>k\<in>K. length (filter P (filter (\<lambda>x. key x = k) df)))"
    by (simp add: sum.distrib)
  also have "(\<Sum>k\<in>K. if key r = k \<and> P r then 1 else 0) = (if P r then 1 else (0::nat))"
  proof (cases "P r")
    case True
    then have "(\<Sum>k\<in>K. if key r = k \<and> P r then 1 else 0)
               = (\<Sum>k\<in>K. if key r = k then 1 else (0::nat))"
      by simp
    also have "\<dots> = 1" using assms(1) in_K by simp
    finally show ?thesis using True by simp
  next
    case False
    then show ?thesis by simp
  qed
  also have "(\<Sum>k\<in>K. length (filter P (filter (\<lambda>x. key x = k) df))) = length (filter P df)"
    using Cons by simp
  finally show ?case by simp
qed

lemma groupby_count:
  "sum_list (map (\<lambda>(k, grp). length (filter P grp)) (groupby key df)) = length (filter P df)"
proof -
  let ?ks = "sort (remdups (map key df))"
  have d: "distinct ?ks" by simp
  have "sum_list (map (\<lambda>(k, grp). length (filter P grp)) (groupby key df))
        = sum_list (map (\<lambda>k. length (filter P (filter (\<lambda>r. key r = k) df))) ?ks)"
    by (simp add: groupby_def comp_def)
  also have "\<dots> = (\<Sum>k\<in>set ?ks. length (filter P (filter (\<lambda>r. key r = k) df)))"
    using d by (rule sum_list_distinct_conv_sum_set)
  also have "\<dots> = length (filter P df)"
    by (rule count_by_key) auto
  finally show ?thesis .
qed

text \<open>The example workbook's rows after the loader has classified them.\<close>

lemma example_data_eval:
  "example_data =
     [\<lparr>Appointment_Date = Some 0, Type = ''MRI brain'', Status = ''Cancelled'',
       Created_By = ''A'', Created_Date = Some 0, Canceled_By = ''Z'',
       Canceled_Date = Some 300, Procedure_Category = ''MRI''\<rparr>,
      \<lparr>Appointment_Date = Some 3600, Type = ''MRI brain'', Status = ''Cancelled'',
       Created_By = ''A'', Created_Date = Some 0, Canceled_By = ''Z'',
       Canceled_Date = Some 7200, Procedure_Category = ''MRI''\<rparr>,
      \<lparr>Appointment_Date = Some 0, Type = ''ct head'', Status = ''No Show'',
       Created_By = ''A'', Created_Date = Some 0, Canceled_By = ''-'',
       Canceled_Date = None, Procedure_Category = ''CT''\<rparr>,
      same_instant,
      \<lparr>Appointment_Date = None, Type = ''ct head'', Status = ''Cancelled'',
       Created_By = ''B'', Created_Date = None, Canceled_By = ''Z'',
       Canceled_Date = Some 10, Procedure_Category = ''CT''\<rparr>]"
  by (simp add: example_data_def example_rows_def process_row_def same_instant_def
        classifier_eval)


section \<open>Tab 1: counts and rates by category\<close>

lemma proc_metrics_grouped_sum:
  "sum_list (map snd (proc_metrics_grouped df)) = length (filter is_cancelled df)"
proof -
  have "map snd (proc_metrics_grouped df)
        = map (\<lambda>(k, grp). length (filter is_cancelled grp)) (groupby Procedure_Category df)"
    by (simp add: proc_metrics_grouped_def split_def comp_def)
  then show ?thesis by (simp add: groupby_count)
qed

text \<open>
  With a positive total the rate of a category is its number of cancellations divided by
  the total, times 100, rounded to one decimal.
\<close>

lemma proc_metrics_positive:
  assumes "0 < tp"
  shows "proc_metrics df tp =
     Inr (sort_values_desc Cancellation_Rate
            (map (\<lambda>(category, c). \<lparr>Category = category, Cancelled = c,
                    Cancellation_Rate = round1 (of_nat c / tp * 100)\<rparr>)
                 (proc_metrics_grouped df)))"
proof -
  have "map2 (\<lambda>(category, c) rate. \<lparr>Category = category, Cancelled = c, Cancellation_Rate = rate\<rparr>)
          g (map round1 (map (\<lambda>c. of_nat c / tp * 100) (map snd g)))
        = map (\<lambda>(category, c). \<lparr>Category = category, Cancelled = c,
                    Cancellation_Rate = round1 (of_nat c / tp * 100)\<rparr>) g"
    for g :: "(string \<times> nat) list"
    by (induction g) auto
  with assms show ?thesis
    by (simp add: proc_metrics_def cancellation_rate_expr_def Let_def)
qed

lemma proc_metrics_cancelled_sum:
  assumes "0 < tp"
  shows "\<exists>rows. proc_metrics df tp = Inr rows
           \<and> sum_list (map Cancelled rows) = length (filter is_cancelled df)"
proof -
  let ?rows = "map (\<lambda>(category, c). \<lparr>Category = category, Cancelled = c,
                    Cancellation_Rate = round1 (of_nat c / tp * 100)\<rparr>) (proc_metrics_grouped df)"
  have eq: "map Cancelled ?rows = map snd (proc_metrics_grouped df)"
    by (simp add: split_def comp_def)
  have "sum_list (map Cancelled (sort_values_desc Cancellation_Rate ?rows))
        = sum_list (map Cancelled ?rows)"
    by (rule sum_list_sort_values_desc)
  also have "\<dots> = sum_list (map snd (proc_metrics_grouped df))"
    by (simp only: eq)
  also have "\<dots> = length (filter is_cancelled df)"
    by (rule proc_metrics_grouped_sum)
  finally have "sum_list (map Cancelled (sort_values_desc Cancellation_Rate ?rows))
             = length (filter is_cancelled df)" .
  with proc_metrics_positive[OF assms, of df] show ?thesis by simp
qed

text \<open>
  Claim C2: the rates by category are computed without an exception, and every rate is 0
  when the total of procedures is 0. The code raises instead. With a total of 0 the
  conditional expression of lines 125-128 yields the integer \<open>0\<close> and not a series, and
  \<open>.round(1)\<close> on an integer raises \<open>AttributeError\<close>; nothing catches it. This is
  also what happens after the loader has fallen back to a total of 0, as it does for the
  example workbook, which has no readable \<open>Patients Seen Report\<close>.
\<close>

theorem rate_of_zero_total_raises:
  "proc_metrics filtered 0 = Inl AttributeError
   \<and> tab1 start_date end_date \<lparr>data = df, total_procedures = 0\<rparr> = Inl AttributeError
   \<and> load_data example_workbook
       = (example_data, 0,
          [Warning ''Could not process Patients Seen Report: Worksheet named Patients Seen Report not found''])
   \<and> dashboard example_workbook example_inputs
       = Raised [Warning ''Could not process Patients Seen Report: Worksheet named Patients Seen Report not found'']
           AttributeError"
proof -
  have a: "proc_metrics filtered 0 = Inl AttributeError" for filtered
    by (simp add: proc_metrics_def cancellation_rate_expr_def Let_def)
  have b: "tab1 start_date end_date \<lparr>data = df, total_procedures = 0\<rparr> = Inl AttributeError"
    by (simp add: tab1_def a)
  have c: "load_data example_workbook
       = (example_data, 0,
          [Warning ''Could not process Patients Seen Report: Worksheet named Patients Seen Report not found''])"
    by (simp add: load_data_def example_workbook_def example_data_def)
  have ne: "example_data \<noteq> []" by (simp add: example_data_eval)
  have d: "dashboard example_workbook example_inputs
       = Raised [Warning ''Could not process Patients Seen Report: Worksheet named Patients Seen Report not found'']
           AttributeError"
    by (simp add: dashboard_def c ne run_tabs_def tab1_def a)
  from a b c d show ?thesis by blast
qed

text \<open>
  Claim C5: for every date-filtered set of records, the cancelled counts of the categories
  add up to the number of records of the set whose status is \<open>Cancelled\<close>. This holds
  for the counts that lines 118-122 compute, whatever the total of procedures is, and for
  the rows that lines 125-130 return when that total is positive.
\<close>

theorem cancelled_counts_sum:
  "sum_list (map snd (proc_metrics_grouped (filtered_data df s e)))
     = length (filter is_cancelled (filtered_data df s e))
   \<and> (0 < tp \<longrightarrow>
        (\<exists>rows. proc_metrics (filtered_data df s e) tp = Inr rows
           \<and> sum_list (map Cancelled rows) = length (filter is_cancelled (filtered_data df s e))))"
  using proc_metrics_grouped_sum proc_metrics_cancelled_sum by blast

lemma filtered_example: "filtered_data example_data 0 1 = take 4 example_data"
  by (simp add: filtered_data_filter example_data_eval same_instant_def date_ge_def date_le_def dt_date_def)

text \<open>
  For the example, with the dates 0 to 1 and a total of 100: three of the four filtered
  records are cancelled, and the counts add up to three.
\<close>

theorem cancelled_counts_sum_witness:
  "(0::rat) < 100
   \<and> length (filter is_cancelled (filtered_data example_data 0 1)) = 3
   \<and> sum_list (map snd (proc_metrics_grouped (filtered_data example_data 0 1))) = 3
   \<and> (\<exists>rows. proc_metrics (filtered_data example_data 0 1) 100 = Inr rows
          \<and> sum_list (map Cancelled rows) = 3)"
proof -
  have n: "length (filter is_cancelled (filtered_data example_data 0 1)) = 3"
    by (simp add: filtered_example) (simp add: example_data_eval same_instant_def is_cancelled_def)
  have pos: "(0::rat) < 100" by simp
  from cancelled_counts_sum[of example_data 0 1 100] n pos show ?thesis by simp
qed


section \<open>Tab 1: procedures of category OTHER with a high cancellation rate\<close>

lemma series_gt_map:
  "series_gt (map f df) m = map (\<lambda>r. \<exists>v. m = Some v \<and> v < f r) df"
  by (cases m) (simp_all add: series_gt_def)

lemma high_cancel_filter:
  "high_cancel ots =
     sort_values_desc Rate
       (filter (\<lambda>r. 5 \<le> Total r \<and> (\<exists>m. median (map Rate ots) = Some m \<and> m < Rate r)) ots)"
  by (simp add: high_cancel_def series_gt_map mask_and_map boolean_index_map)

text \<open>
  Claim C3: the rows of high cancellation rate are exactly the rows of the \<open>OTHER\<close>
  breakdown with a total of at least 5 and a rate strictly above the median of the rates
  of all the rows of the breakdown, the median being taken before the cut at 5. No row
  with a total below 5 is among them.
\<close>

theorem high_cancel_exact:
  "mset (high_cancel ots) =
     {# r \<in># mset ots. 5 \<le> Total r \<and> (\<exists>m. median (map Rate ots) = Some m \<and> m < Rate r) #}
   \<and> (\<forall>r\<in>set (high_cancel ots). 5 \<le> Total r)"
  by (simp add: high_cancel_filter mset_sort_values_desc set_sort_values_desc)

lemma median_example: "median (map Rate example_other_types) = Some 10"
  by (simp add: example_other_types_def median_def)

lemma median_example_cut: "median (map Rate (filter (\<lambda>r. 5 \<le> Total r) example_other_types)) = Some 30"
  by (simp add: example_other_types_def median_def)

text \<open>
  For the example breakdown the median of all five rates is 10, so the rows with the rates
  50 and 30 are selected; the median of the three rows with a total of at least 5 would be
  30 and would select the first of them only.
\<close>

theorem high_cancel_exact_witness:
  "mset (high_cancel example_other_types) =
     {# \<lparr>Procedure_Type = ''biopsy'', Total = 10, Cancelled_Count = 5, Rate = 50\<rparr>,
        \<lparr>Procedure_Type = ''consult'', Total = 10, Cancelled_Count = 3, Rate = 30\<rparr> #}
   \<and> median (map Rate example_other_types) = Some 10
   \<and> median (map Rate (filter (\<lambda>r. 5 \<le> Total r) example_other_types)) = Some 30"
proof -
  have "mset (high_cancel example_other_types) =
     {# r \<in># mset example_other_types. 5 \<le> Total r \<and> 10 < Rate r #}"
    using high_cancel_exact[of example_other_types] by (simp add: median_example)
  also have "\<dots> = {# \<lparr>Procedure_Type = ''biopsy'', Total = 10, Cancelled_Count = 5, Rate = 50\<rparr>,
        \<lparr>Procedure_Type = ''consult'', Total = 10, Cancelled_Count = 3, Rate = 30\<rparr> #}"
    by (simp add: example_other_types_def)
  finally show ?thesis using median_example median_example_cut by simp
qed


section \<open>The date filter\<close>

text \<open>
  Claim C9: whatever the date range, every record that passes the date filter has an
  appointment date, and a record whose appointment date did not parse passes it for no
  range. The records that tab 2 lists for an employee and those that tab 4 lists for an
  employee come from the filtered set and have an appointment date too.
\<close>

theorem filtered_data_dated:
  "(\<forall>r\<in>set (filtered_data df s e). Appointment_Date r \<noteq> None)
   \<and> (\<forall>r\<in>set df. Appointment_Date r = None \<longrightarrow> r \<notin> set (filtered_data df s e))
   \<and> (\<forall>r\<in>set (employee_data (fst (tab2 s e emp g))). Appointment_Date r \<noteq> None)
   \<and> (\<forall>r\<in>set (employee_cancellations (tab4 s e emp g)). Appointment_Date r \<noteq> None)"
proof -
  have 1: "Appointment_Date r \<noteq> None" if "r \<in> set (filtered_data df s e)" for r df
    using that by (auto simp: filtered_data_filter date_ge_def dt_date_def split: option.splits)
  have 2: "set (employee_data (fst (tab2 s e emp g))) \<subseteq> set (filtered_data (data g) s e)"
    by (auto simp: tab2_def Let_def)
  have 3: "set (employee_cancellations (tab4 s e emp g)) \<subseteq> set (filtered_data (data g) s e)"
    by (auto simp: tab4_def Let_def mask_and_map boolean_index_map)
  from 1 2 3 show ?thesis by blast
qed

text \<open>
  For the example, with a range that spans every date: the fifth record has no
  appointment date and is not in the filtered set; the first four records are.
\<close>

theorem filtered_data_dated_witness:
  "example_data ! 4 \<in> set example_data
   \<and> Appointment_Date (example_data ! 4) = None
   \<and> example_data ! 4 \<notin> set (filtered_data example_data (-1000000) 1000000)
   \<and> filtered_data example_data (-1000000) 1000000 = take 4 example_data
   \<and> Appointment_Date (example_data ! 0) \<noteq> None"
proof -
  have a: "example_data ! 4 \<in> set example_data" by (simp add: example_data_eval)
  have b: "Appointment_Date (example_data ! 4) = None" by (simp add: example_data_eval)
  have c: "filtered_data example_data (-1000000) 1000000 = take 4 example_data"
    by (simp add: filtered_data_filter example_data_eval same_instant_def date_ge_def
          date_le_def dt_date_def)
  have d: "example_data ! 0 \<in> set (filtered_data example_data (-1000000) 1000000)"
    unfolding c by (simp add: example_data_eval)
  from filtered_data_dated[of example_data "-1000000" 1000000] a b
  have "example_data ! 4 \<notin> set (filtered_data example_data (-1000000) 1000000)" by blast
  moreover from filtered_data_dated[of example_data "-1000000" 1000000] d
  have "Appointment_Date (example_data ! 0) \<noteq> None" by blast
  ultimately show ?thesis using a b c by blast
qed


section \<open>The loader\<close>

text \<open>
  Claim C7: when the sheet \<open>Patients Seen Report\<close> cannot be read or processed, the
  loader returns the appointment records it has loaded together with a total of 0 and a
  warning; the records are the ones it returns when the sheet is read.
\<close>

theorem load_data_secondary_failure:
  "path_exists wb \<Longrightarrow> cancel_no_show wb = Inr raw \<Longrightarrow> patients_seen wb = Inl err \<Longrightarrow>
   load_data wb
     = (map process_row raw, 0,
        [Warning (''Could not process Patients Seen Report: '' @ err)])
   \<and> fst (load_data wb) = fst (load_data (wb\<lparr>patients_seen := Inr grid\<rparr>))"
  by (simp add: load_data_def)

text \<open>For the example workbook, whose second sheet is missing.\<close>

theorem load_data_secondary_failure_witness:
  "path_exists example_workbook
   \<and> cancel_no_show example_workbook = Inr example_rows
   \<and> patients_seen example_workbook = Inl ''Worksheet named Patients Seen Report not found''
   \<and> load_data example_workbook
       = (example_data, 0,
          [Warning ''Could not process Patients Seen Report: Worksheet named Patients Seen Report not found''])
   \<and> fst (load_data (example_workbook\<lparr>patients_seen := Inr [[NonNumeric ''MRI'', Numeric 7]]\<rparr>))
       = example_data"
proof -
  have a: "path_exists example_workbook" by (simp add: example_workbook_def)
  have b: "cancel_no_show example_workbook = Inr example_rows" by (simp add: example_workbook_def)
  have c: "patients_seen example_workbook = Inl ''Worksheet named Patients Seen Report not found''"
    by (simp add: example_workbook_def)
  note th = load_data_secondary_failure[OF a b c, of "[[NonNumeric ''MRI'', Numeric 7]]"]
  from th have d: "load_data example_workbook
       = (example_data, 0,
          [Warning ''Could not process Patients Seen Report: Worksheet named Patients Seen Report not found''])"
    by (simp add: example_data_def)
  from th have "fst (load_data example_workbook)
       = fst (load_data (example_workbook\<lparr>patients_seen := Inr [[NonNumeric ''MRI'', Numeric 7]]\<rparr>))"
    by blast
  with d have "fst (load_data (example_workbook\<lparr>patients_seen := Inr [[NonNumeric ''MRI'', Numeric 7]]\<rparr>))
       = example_data"
    by simp
  with a b c d show ?thesis by blast
qed


section \<open>Tab 2: the employee's total and the total of the clinic\<close>

lemma tab2_total_procedures:
  "total_procedures (snd (tab2 s e emp g)) = of_nat (length (employee_data (fst (tab2 s e emp g))))"
  by (simp add: tab2_def Let_def)

text \<open>
  Claim C4: computing the detail metrics of an employee leaves the clinic-wide total of
  procedures as the loader produced it. The code does not: line 359 stores the number of
  the employee's records under the name \<open>total_procedures\<close>, which held the loader's
  total. In the example the loader's total is 100, employee \<open>A\<close> has three records in
  the range, and after tab 2 the name holds 3.
\<close>

theorem tab2_overwrites_total_procedures:
  "total_procedures example_globals = 100
   \<and> length (employee_data (fst (tab2 0 1 ''A'' example_globals))) = 3
   \<and> total_procedures (snd (tab2 0 1 ''A'' example_globals)) = 3"
proof -
  have "employee_data (fst (tab2 0 1 ''A'' example_globals)) = take 3 example_data"
    by (simp add: tab2_def Let_def example_globals_def filtered_example)
       (simp add: example_data_eval same_instant_def)
  then have "length (employee_data (fst (tab2 0 1 ''A'' example_globals))) = 3"
    by (simp add: example_data_eval)
  then show ?thesis
    by (simp add: tab2_total_procedures) (simp add: example_globals_def)
qed


section \<open>Tab 3: the time to cancellation\<close>

lemma time_to_cancellation_Some:
  "time_to_cancellation r = Some h \<longleftrightarrow>
     (\<exists>c t. Canceled_Date r = Some c \<and> Created_Date r = Some t \<and> h = (c - t) / 3600)"
  by (auto simp: time_to_cancellation_def split: option.splits)

lemma time_to_cancellation_None:
  "time_to_cancellation r = None \<longleftrightarrow> Created_Date r = None \<or> Canceled_Date r = None"
  by (auto simp: time_to_cancellation_def split: option.splits)

lemma dropna_time_map:
  "dropna_time (map (\<lambda>r. (r, f r)) rs)
     = map (\<lambda>r. (r, the (f r))) (filter (\<lambda>r. f r \<noteq> None) rs)"
proof (induction rs)
  case Nil
  then show ?case by simp
next
  case (Cons r rs)
  then show ?case by (cases "f r") simp_all
qed

text \<open>
  The categories of \<open>pd.cut\<close> over exact rationals. The source compares doubles, so
  within the rounding error of an edge its category can differ from the one given here.
\<close>

lemma cut_bins:
  "cut h bins labels =
     (if 0 < h \<and> h \<le> 1667 / 10000 then Some ''<10 mins''
      else if 1667 / 10000 < h \<and> h \<le> 1 then Some ''10m-1h''
      else if 1 < h \<and> h \<le> 5 then Some ''1-5h''
      else if 5 < h \<and> h \<le> 24 then Some ''5-24h''
      else if 24 < h then Some ''>24h''
      else None)"
  by (auto simp: bins_def labels_def)

lemma cut_nonpositive: "h \<le> 0 \<Longrightarrow> cut h bins labels = None"
  by (simp add: cut_bins)

lemma tab3_rows:
  assumes "tab3 g = Inr v"
  shows "cancelled_data v =
           map (\<lambda>r. \<lparr>appt = r, Time_to_Cancellation = the (time_to_cancellation r),
                       Time_Category = cut (the (time_to_cancellation r)) bins labels\<rparr>)
               (filter (\<lambda>r. is_cancelled r \<and> Created_Date r \<noteq> None \<and> Canceled_Date r \<noteq> None)
                       (data g))"
proof -
  define kept where
    "kept = dropna_time (map (\<lambda>r. (r, time_to_cancellation r)) (filter is_cancelled (data g)))"
  have "filter (\<lambda>r. time_to_cancellation r \<noteq> None) (filter is_cancelled (data g))
        = filter (\<lambda>r. is_cancelled r \<and> Created_Date r \<noteq> None \<and> Canceled_Date r \<noteq> None) (data g)"
    unfolding filter_filter
    by (rule filter_cong) (auto simp: time_to_cancellation_None)
  then have kept_eq:
    "kept = map (\<lambda>r. (r, the (time_to_cancellation r)))
              (filter (\<lambda>r. is_cancelled r \<and> Created_Date r \<noteq> None \<and> Canceled_Date r \<noteq> None)
                      (data g))"
    unfolding kept_def dropna_time_map by (rule arg_cong)
  from assms have "cancelled_data v =
      map (\<lambda>(r, h). \<lparr>appt = r, Time_to_Cancellation = h, Time_Category = cut h bins labels\<rparr>) kept"
    by (auto simp: tab3_def Let_def kept_def split: if_splits)
  then show ?thesis
    unfolding kept_eq by (simp add: comp_def del: not_None_eq)
qed

lemma tab3_returns:
  assumes "r \<in> set (data g)" "is_cancelled r" "Created_Date r \<noteq> None" "Canceled_Date r \<noteq> None"
  shows "\<exists>v. tab3 g = Inr v"
proof -
  from assms have 1: "filter is_cancelled (data g) \<noteq> []"
    by (auto simp: filter_empty_conv)
  from assms have "time_to_cancellation r \<noteq> None"
    by (simp add: time_to_cancellation_None)
  with assms have 2: "filter (\<lambda>r. time_to_cancellation r \<noteq> None) (filter is_cancelled (data g)) \<noteq> []"
    by (auto simp: filter_empty_conv)
  from 1 2 show ?thesis
    by (simp add: tab3_def Let_def dropna_time_map)
qed

text \<open>
  What the view of tab 3 holds when it is shown: the cancelled records that have both a
  creation and a cancellation stamp, in their order, each with the difference of its two
  stamps in hours and the category \<open>pd.cut\<close> gives that difference. The view is shown as
  soon as one cancelled record has both stamps. An elapsed time of five minutes is
  labelled \<open><10 mins\<close> and one of two hours \<open>1-5h\<close>.
\<close>

lemma tab3_kept_rows:
  "(\<forall>v. tab3 g = Inr v \<longrightarrow>
       map appt (cancelled_data v)
         = filter (\<lambda>r. is_cancelled r \<and> Created_Date r \<noteq> None \<and> Canceled_Date r \<noteq> None) (data g)
       \<and> (\<forall>row\<in>set (cancelled_data v).
             (\<exists>c t. Canceled_Date (appt row) = Some c \<and> Created_Date (appt row) = Some t
                    \<and> Time_to_Cancellation row = (c - t) / 3600)
             \<and> Time_Category row = cut (Time_to_Cancellation row) bins labels))
   \<and> ((\<exists>r\<in>set (data g). is_cancelled r \<and> Created_Date r \<noteq> None \<and> Canceled_Date r \<noteq> None)
        \<longrightarrow> (\<exists>v. tab3 g = Inr v))
   \<and> (\<forall>r T. time_to_cancellation (r\<lparr>Created_Date := Some T, Canceled_Date := Some (T + 5 * 60)\<rparr>)
               = Some (1 / 12))
   \<and> cut (1 / 12) bins labels = Some ''<10 mins''
   \<and> (\<forall>r T. time_to_cancellation (r\<lparr>Created_Date := Some T, Canceled_Date := Some (T + 2 * 3600)\<rparr>)
               = Some 2)
   \<and> cut 2 bins labels = Some ''1-5h''"
proof (intro conjI allI impI ballI)
  fix v assume v: "tab3 g = Inr v"
  show "map appt (cancelled_data v)
         = filter (\<lambda>r. is_cancelled r \<and> Created_Date r \<noteq> None \<and> Canceled_Date r \<noteq> None) (data g)"
    by (simp add: tab3_rows[OF v] comp_def)
  fix row assume row: "row \<in> set (cancelled_data v)"
  then obtain r where r: "Created_Date r \<noteq> None" "Canceled_Date r \<noteq> None"
    and eq: "row = \<lparr>appt = r, Time_to_Cancellation = the (time_to_cancellation r),
                       Time_Category = cut (the (time_to_cancellation r)) bins labels\<rparr>"
    by (auto simp: tab3_rows[OF v])
  from r obtain c t where ct: "Canceled_Date r = Some c" "Created_Date r = Some t" by auto
  then have "time_to_cancellation r = Some ((c - t) / 3600)"
    by (simp add: time_to_cancellation_def)
  with eq ct show "\<exists>c t. Canceled_Date (appt row) = Some c \<and> Created_Date (appt row) = Some t
                    \<and> Time_to_Cancellation row = (c - t) / 3600"
    by simp
  from eq show "Time_Category row = cut (Time_to_Cancellation row) bins labels"
    by simp
next
  assume "\<exists>r\<in>set (data g). is_cancelled r \<and> Created_Date r \<noteq> None \<and> Canceled_Date r \<noteq> None"
  then show "\<exists>v. tab3 g = Inr v" using tab3_returns by blast
qed (simp_all add: cut_bins time_to_cancellation_def)

text \<open>
  Claim C8: every cancelled record with both stamps is assigned to the bucket of its
  elapsed time, the buckets having the edges 0, 10 minutes, 1 hour, 5 hours and 24 hours
  and the labels \<open><10 mins\<close>, \<open>10m-1h\<close>, \<open>1-5h\<close>, \<open>5-24h\<close> and \<open>>24h\<close>. The code does not
  do this at two places, against its own edges, labels and comment (lines 418-423). A
  cancelled record whose two stamps coincide has an elapsed time of 0, stays in the view,
  counts in the mean, the median and the maximum, and gets no bucket: \<open>pd.cut\<close> is called
  without \<open>include_lowest\<close>, so the first interval excludes its edge 0. An elapsed time
  of 10 minutes and 0.1 seconds lies above 10 minutes and is labelled \<open><10 mins\<close>: the
  first edge is written \<open>0.1667\<close> hours, which is 10 minutes and 0.12 seconds. Both
  elapsed times are far enough from the edges for the doubles of the source to fall on
  the same side as the rationals here.
\<close>

theorem zero_elapsed_unbucketed:
  "is_cancelled same_instant
   \<and> Created_Date same_instant = Some 50
   \<and> Canceled_Date same_instant = Some 50
   \<and> tab3 \<lparr>data = [same_instant], total_procedures = 100\<rparr>
       = Inr \<lparr>cancelled_data =
                [\<lparr>appt = same_instant, Time_to_Cancellation = 0, Time_Category = None\<rparr>],
              average_hours = 0, median_hours = Some 0, max_hours = 0\<rparr>
   \<and> (10 / 60 :: rat) < 6001 / 36000
   \<and> cut (6001 / 36000) bins labels = Some ''<10 mins''"
  by (simp add: same_instant_def is_cancelled_def tab3_def time_to_cancellation_def Let_def
        cut_bins median_def)


section \<open>Tab 3 and the date ranges\<close>

lemma tab3_data_only: "data g = data g' \<Longrightarrow> tab3 g = tab3 g'"
  by (simp add: tab3_def)

lemma data_tab2: "data (snd (tab2 s e emp g)) = data g"
  by (simp add: tab2_def Let_def)

lemma tab1_raises_iff:
  "tab1 s e g = Inl AttributeError \<longleftrightarrow> \<not> 0 < total_procedures g"
  by (simp add: tab1_def proc_metrics_def cancellation_rate_expr_def Let_def)

lemma run_tabs_view3:
  "map_sum id view3 (run_tabs inp g)
     = (if 0 < total_procedures g then Inr (tab3 g) else Inl AttributeError)"
proof (cases "0 < total_procedures g")
  case True
  then obtain v1 where "tab1 (fst (tab1_dates inp)) (snd (tab1_dates inp)) g = Inr v1"
    by (simp add: tab1_def proc_metrics_def cancellation_rate_expr_def Let_def)
  moreover have "tab3 (snd (tab2 s e emp g)) = tab3 g" for s e emp
    by (rule tab3_data_only) (rule data_tab2)
  ultimately show ?thesis using True
    by (simp add: run_tabs_def split_def Let_def)
next
  case False
  then have "tab1 (fst (tab1_dates inp)) (snd (tab1_dates inp)) g = Inl AttributeError"
    by (simp add: tab1_raises_iff)
  with False show ?thesis by (simp add: run_tabs_def)
qed

text \<open>
  Claim C10: the time-to-cancellation view is computed from all the loaded records and
  does not depend on the date ranges: two runs of the script on the same loaded data
  with any two choices of the widgets' values give the same view, the one computed from
  the loaded data. (When the clinic-wide total is not positive, tab 1 raises and no run
  reaches tab 3.)
\<close>

theorem tab3_ignores_date_ranges:
  "map_sum id view3 (run_tabs inp g) = map_sum id view3 (run_tabs inp' g)
   \<and> map_sum id view3 (run_tabs inp g)
       = (if 0 < total_procedures g then Inr (tab3 g) else Inl AttributeError)
   \<and> tab3 (snd (tab2 s e emp g)) = tab3 g"
proof -
  have "tab3 (snd (tab2 s e emp g)) = tab3 g"
    by (rule tab3_data_only) (rule data_tab2)
  then show ?thesis by (simp add: run_tabs_view3)
qed

text \<open>
  For the example, the ranges 0 to 1 and 5 to 6 filter different records and give the
  same view.
\<close>

theorem tab3_ignores_date_ranges_witness:
  "map_sum id view3 (run_tabs example_inputs example_globals)
     = map_sum id view3
         (run_tabs (example_inputs\<lparr>tab1_dates := (5, 6), tab2_dates := (5, 6), tab4_dates := (5, 6)\<rparr>)
            example_globals)
   \<and> map_sum id view3 (run_tabs example_inputs example_globals) = Inr (tab3 example_globals)
   \<and> filtered_data example_data 0 1 \<noteq> filtered_data example_data 5 6"
proof -
  have "filtered_data example_data 5 6 = []"
    by (simp add: filtered_data_filter example_data_eval same_instant_def date_ge_def
          date_le_def dt_date_def)
  then have differ: "filtered_data example_data 0 1 \<noteq> filtered_data example_data 5 6"
    by (simp add: filtered_example) (simp add: example_data_eval)
  have pos: "0 < total_procedures example_globals" by (simp add: example_globals_def)
  note th = tab3_ignores_date_ranges[of example_inputs example_globals
        "example_inputs\<lparr>tab1_dates := (5, 6), tab2_dates := (5, 6), tab4_dates := (5, 6)\<rparr>"
        0 1 "''A''"]
  from th have same: "map_sum id view3 (run_tabs example_inputs example_globals)
     = map_sum id view3
         (run_tabs (example_inputs\<lparr>tab1_dates := (5, 6), tab2_dates := (5, 6), tab4_dates := (5, 6)\<rparr>)
            example_globals)"
    by blast
  from th have "map_sum id view3 (run_tabs example_inputs example_globals)
                  = (if 0 < total_procedures example_globals then Inr (tab3 example_globals)
                     else Inl AttributeError)"
    by blast
  with pos have "map_sum id view3 (run_tabs example_inputs example_globals)
                    = Inr (tab3 example_globals)"
    by (simp only: if_True)
  with same differ show ?thesis by blast
qed

end
